theory Spec2Isabelle
  imports Main "HOL-Library.Char_ord" "HOL-Library.List_Lexorder"
begin

section \<open>Values, errors and the world the commands run in\<close>

text \<open>
  The module \<^verbatim>\<open>whipper/command/basecommand.py\<close> builds a tree of command line parsers.
  Python values that travel through keyword arguments and through the options namespace
  are modelled by \<open>pyval\<close>; the callables that may be given as \<^verbatim>\<open>type=\<close> are \<open>pytype\<close>.
\<close>

datatype pytype = TInt | TFloat | TBool | TOther string

datatype pyval =
    VNone
  | VStr string
  | VInt int
  | VBool bool
  | VType pytype
  | VStrs "string list"

text \<open>Every \<^verbatim>\<open>raise\<close> and every \<^verbatim>\<open>sys.exit\<close> of the source is a value of \<open>error\<close>.\<close>

datatype error =
    SyntaxError string
  | IOError string
  | SystemExit int
  | AttributeError string
  | TypeError string
  | NotModelled

text \<open>One call of \<^verbatim>\<open>ArgumentParser.add_argument(*args, **kwargs)\<close>.\<close>

record argspec =
  flags :: "string list"
  kwargs :: "string \<rightharpoonup> pyval"

text \<open>The keyword arguments \<^verbatim>\<open>init_parser\<close> gives to \<^verbatim>\<open>ArgumentParser\<close>, and the arguments
  registered on the parser so far, in order.\<close>

record parser =
  prog :: string
  description :: string
  epilog_text :: "string option"
  add_help :: bool
  actions :: "argspec list"

type_synonym namespace = "string \<rightharpoonup> pyval"

datatype level = Critical

text \<open>
  Everything outside one command object that the constructor reads or changes:
  the shared options namespace (\<^verbatim>\<open>opts\<close>), the values held by the class-wide
  \<^verbatim>\<open>config\<close> object, and, as observation logs, the calls of its getter, the records
  sent to the logger, the help texts printed, the calls of \<^verbatim>\<open>parse_args\<close> and the child
  commands constructed (name, argv, program name, namespace handed over).
\<close>

record world =
  opts :: namespace
  stored :: "pyval \<times> pyval \<rightharpoonup> pyval"
  getter_calls :: "(string \<times> pyval \<times> pyval \<times> pyval) list"
  logged :: "(level \<times> string) list"
  printed :: "string list"
  parse_calls :: "string list list"
  constructed :: "(string \<times> string list \<times> string \<times> namespace) list"

type_synonym 'a result = "(error + 'a) \<times> world"

section \<open>The configuration getter\<close>

text \<open>
  Modelled from the spec: \<^verbatim>\<open>config.getter_or_default\<close> of \<^verbatim>\<open>whipper.common.config\<close>, which
  is not part of the sources at hand. The spec gives it as
  \<^verbatim>\<open>get(type_suffix, section, key, default) -> value\<close>, returning the code default
  unmodified when no stored value exists. \<open>stored\<close> holds, for a section and a key, the
  value as the typed getter reads it. Each call is appended to \<open>getter_calls\<close>.
\<close>

definition getter_or_default ::
  "string \<Rightarrow> pyval \<Rightarrow> pyval \<Rightarrow> pyval \<Rightarrow> world \<Rightarrow> pyval \<times> world" where
  "getter_or_default typesuffix section key dflt w =
     ((case stored w (section, key) of Some v \<Rightarrow> v | None \<Rightarrow> dflt),
      w\<lparr>getter_calls := getter_calls w @ [(typesuffix, section, key, dflt)]\<rparr>)"

section \<open>add_argument_and_config\<close>

text \<open>
  Lines 140-150: the section is the \<^verbatim>\<open>section\<close> keyword, popped from the keywords, or
  else the command's \<^verbatim>\<open>config_section\<close>, or else \<^verbatim>\<open>"main"\<close>.
\<close>

definition take_section ::
  "string option \<Rightarrow> (string \<rightharpoonup> pyval) \<Rightarrow> pyval \<times> (string \<rightharpoonup> pyval)" where
  "take_section config_section kw =
     (case kw ''section'' of
        Some s \<Rightarrow> (s, kw(''section'' := None))
      | None \<Rightarrow>
          (case config_section of
             None \<Rightarrow> (VStr ''main'', kw)
           | Some cs \<Rightarrow> (VStr cs, kw)))"

text \<open>Lines 154-157: the code default is popped from the keywords; \<^verbatim>\<open>None\<close> without one.\<close>

definition take_default ::
  "(string \<rightharpoonup> pyval) \<Rightarrow> pyval \<times> (string \<rightharpoonup> pyval)" where
  "take_default kw =
     (case kw ''default'' of
        Some d \<Rightarrow> (d, kw(''default'' := None))
      | None \<Rightarrow> (VNone, kw))"

text \<open>
  Lines 168-173. Line 172 of the source reads
  \<^verbatim>\<open>else if kwargs["type"] = bool:\<close>, which is neither an \<^verbatim>\<open>elif\<close> nor a comparison and
  has no value in Python. The model takes the truth value of that guard as the
  parameter \<open>bool_guard\<close>, applied to \<^verbatim>\<open>kwargs["type"]\<close>; every statement below that
  does not fix \<open>bool_guard\<close> holds for each way of reading the line.
\<close>

definition typesuffix_of :: "(pyval \<Rightarrow> bool) \<Rightarrow> (string \<rightharpoonup> pyval) \<Rightarrow> string" where
  "typesuffix_of bool_guard kw =
     (case kw ''type'' of
        None \<Rightarrow> ''''
      | Some t \<Rightarrow>
          if t = VType TInt then ''int''
          else if t = VType TFloat then ''float''
          else if bool_guard t then ''boolean''
          else '''')"

text \<open>
  The whole method, on the command's \<^verbatim>\<open>config_section\<close> and its parser. The call of
  \<^verbatim>\<open>self.parser.add_argument(default=..., *args, **kwargs)\<close> appends one \<open>argspec\<close>.
\<close>

definition add_argument_and_config ::
  "(pyval \<Rightarrow> bool) \<Rightarrow> string option \<Rightarrow> string list \<Rightarrow> (string \<rightharpoonup> pyval)
     \<Rightarrow> parser \<Rightarrow> world \<Rightarrow> parser result" where
  "add_argument_and_config bool_guard config_section args kw p w =
     (let (section, kw1) = take_section config_section kw;
          (dflt, kw2) = take_default kw1
      in case kw2 ''dest'' of
           None \<Rightarrow> (Inl (SyntaxError ''parser requires a 'dest' argument''), w)
         | Some key \<Rightarrow>
             (let typesuffix = typesuffix_of bool_guard kw2;
                  (eff, w') = getter_or_default typesuffix section key dflt w
              in (Inr (p\<lparr>actions := actions p @
                         [\<lparr>flags = args, kwargs = kw2(''default'' \<mapsto> eff)\<rparr>]\<rparr>), w')))"

section \<open>The constructor of BaseCommand\<close>

text \<open>
  What the constructor consumes from outside the module: the device enumerator
  \<^verbatim>\<open>drive.getAllDevicePaths()\<close>, \<^verbatim>\<open>os.path.realpath\<close>, \<^verbatim>\<open>os.path.exists\<close>, and from
  \<^verbatim>\<open>argparse\<close> the parser's \<^verbatim>\<open>parse_args(argv, namespace=opts)\<close> and the text that
  \<^verbatim>\<open>print_help\<close> prints. \<open>parse_args\<close> gives the namespace as it leaves it and the
  error it stops with, if any.
\<close>

record env =
  getAllDevicePaths :: "string list"
  realpath :: "string \<Rightarrow> string"
  path_exists :: "string \<Rightarrow> bool"
  parse_args :: "parser \<Rightarrow> string list \<Rightarrow> namespace \<Rightarrow> error option \<times> namespace"
  help_text :: "parser \<Rightarrow> string"

text \<open>A constructed command: \<^verbatim>\<open>self.prog_name\<close>, \<^verbatim>\<open>self.parser\<close> and \<^verbatim>\<open>self.cmd\<close>
  (absent on a command without subcommands).\<close>

datatype command = Command (prog_name: string) (cmd_parser: parser) (cmd: "command option")

text \<open>An entry of the \<^verbatim>\<open>subcommands\<close> dictionary is a class: its \<^verbatim>\<open>summary\<close> and its
  constructor, called with \<^verbatim>\<open>(argv, prog_name, opts)\<close>; \<^verbatim>\<open>opts\<close> is the namespace of the
  world handed over.\<close>

record subcommand =
  summary :: string
  construct :: "string list \<Rightarrow> string \<Rightarrow> world \<Rightarrow> command result"

text \<open>
  The class attributes and the two methods a subclass overrides. \<^verbatim>\<open>BaseCommand\<close>
  itself has no \<^verbatim>\<open>description\<close> and no \<^verbatim>\<open>subcommands\<close> (\<open>None\<close>), and its
  \<^verbatim>\<open>add_arguments\<close> and \<^verbatim>\<open>handle_arguments\<close> do nothing. The dictionary is an
  association list; its keys are distinct.
\<close>

record command_class =
  device_option :: bool
  no_add_help :: bool
  class_description :: "string option"
  config_section :: "string option"
  subcommands :: "(string \<times> subcommand) list option"
  add_arguments :: "parser \<Rightarrow> world \<Rightarrow> parser result"
  handle_arguments :: "parser \<Rightarrow> world \<Rightarrow> parser result"

definition bind :: "'a result \<Rightarrow> ('a \<Rightarrow> world \<Rightarrow> 'b result) \<Rightarrow> 'b result" where
  "bind r f = (case r of (Inl e, w) \<Rightarrow> (Inl e, w) | (Inr x, w) \<Rightarrow> f x w)"

definition REMAINDER :: string where
  "REMAINDER = ''...''"

definition SUPPRESS :: string where
  "SUPPRESS = ''==SUPPRESS==''"

definition ljust :: "nat \<Rightarrow> string \<Rightarrow> string" where
  "ljust n s = s @ replicate (n - length s) CHR '' ''"

text \<open>Lines 130-134.\<close>

definition epilog :: "(string \<times> subcommand) list \<Rightarrow> string" where
  "epilog subs =
     ''commands:'' @ [CHR 0x0A] @
     concat (map (\<lambda>(com, c). ''  '' @ ljust 8 com @ '' '' @ summary c @ [CHR 0x0A])
                 (sort_key fst subs))"

text \<open>Lines 109-119; reading \<^verbatim>\<open>self.description\<close> fails on a class that has none. The
  formatter class only shapes the help text and is left out.\<close>

definition init_parser :: "command_class \<Rightarrow> string \<Rightarrow> error + parser" where
  "init_parser cls pn =
     (case class_description cls of
        None \<Rightarrow> Inl (AttributeError ''description'')
      | Some d \<Rightarrow>
          Inr \<lparr>prog = pn, description = d,
               epilog_text = (case subcommands cls of None \<Rightarrow> None | Some subs \<Rightarrow> Some (epilog subs)),
               add_help = (\<not> no_add_help cls),
               actions = []\<rparr>)"

text \<open>Lines 64-67.\<close>

definition register_remainder :: "command_class \<Rightarrow> parser \<Rightarrow> parser" where
  "register_remainder cls p =
     (case subcommands cls of
        None \<Rightarrow> p
      | Some subs \<Rightarrow>
          p\<lparr>actions := actions p @
              [\<lparr>flags = [''remainder''],
                kwargs = [''nargs'' \<mapsto> VStr REMAINDER, ''help'' \<mapsto> VStr SUPPRESS]\<rparr>]\<rparr>)"

definition no_drives_msg :: string where
  "no_drives_msg = ''No CD-DA drives found!''"

definition device_missing_msg :: "string \<Rightarrow> string" where
  "device_missing_msg d = ''CD-DA device '' @ d @ '' not found!''"

text \<open>Lines 69-81.\<close>

definition register_device :: "env \<Rightarrow> command_class \<Rightarrow> parser \<Rightarrow> world \<Rightarrow> parser result" where
  "register_device ev cls p w =
     (if device_option cls then
        (case getAllDevicePaths ev of
           [] \<Rightarrow> (Inl (IOError no_drives_msg), w\<lparr>logged := logged w @ [(Critical, no_drives_msg)]\<rparr>)
         | d # ds \<Rightarrow>
             (Inr (p\<lparr>actions := actions p @
                     [\<lparr>flags = [''-d'', ''--device''],
                       kwargs = [''action'' \<mapsto> VStr ''store'', ''dest'' \<mapsto> VStr ''device'',
                                 ''default'' \<mapsto> VStr d, ''help'' \<mapsto> VStr ''CD-DA device'']\<rparr>]\<rparr>), w))
      else (Inr p, w))"

text \<open>Line 83: the parser works on the shared namespace.\<close>

definition parse :: "env \<Rightarrow> string list \<Rightarrow> parser \<Rightarrow> world \<Rightarrow> parser result" where
  "parse ev argv p w =
     (case parse_args ev p argv (opts w) of
        (Some e, ns) \<Rightarrow> (Inl e, w\<lparr>opts := ns, parse_calls := parse_calls w @ [argv]\<rparr>)
      | (None, ns) \<Rightarrow> (Inr p, w\<lparr>opts := ns, parse_calls := parse_calls w @ [argv]\<rparr>))"

text \<open>Lines 85-91. \<^verbatim>\<open>os.path.realpath\<close> wants a path; the parser stores the device as one.\<close>

definition resolve_device :: "env \<Rightarrow> command_class \<Rightarrow> parser \<Rightarrow> world \<Rightarrow> parser result" where
  "resolve_device ev cls p w =
     (if device_option cls then
        (case opts w ''device'' of
           None \<Rightarrow> (Inl (AttributeError ''device''), w)
         | Some (VStr d) \<Rightarrow>
             (let r = realpath ev d;
                  w' = w\<lparr>opts := (opts w)(''device'' \<mapsto> VStr r)\<rparr>
              in if \<not> path_exists ev r
                 then (Inl (IOError (device_missing_msg r)),
                       w'\<lparr>logged := logged w' @ [(Critical, device_missing_msg r)]\<rparr>)
                 else (Inr p, w'))
         | Some _ \<Rightarrow> (Inl (TypeError ''realpath''), w))
      else (Inr p, w))"

text \<open>
  Lines 95-107. The parser stores what the catch-all positional captured as a list of
  tokens; an attribute of another shape is not one \<^verbatim>\<open>parse_args\<close> writes, and the model
  stops with \<open>TypeError\<close> there. The construction of the child is recorded in
  \<open>constructed\<close> before the child's constructor runs.
\<close>

definition dispatch :: "env \<Rightarrow> command_class \<Rightarrow> string \<Rightarrow> parser \<Rightarrow> world \<Rightarrow> command result" where
  "dispatch ev cls pn p w =
     (case subcommands cls of
        None \<Rightarrow> (Inr (Command pn p None), w)
      | Some subs \<Rightarrow>
          (case opts w ''remainder'' of
             None \<Rightarrow> (Inl (AttributeError ''remainder''), w)
           | Some (VStrs []) \<Rightarrow>
               (Inl (SystemExit 0), w\<lparr>printed := printed w @ [help_text ev p]\<rparr>)
           | Some (VStrs (name # rest)) \<Rightarrow>
               (case map_of subs name of
                  None \<Rightarrow>
                    (Inl (SystemExit 1),
                     w\<lparr>logged := logged w @ [(Critical, ''incorrect subcommand: '' @ name)]\<rparr>)
                | Some sc \<Rightarrow>
                    bind (construct sc rest (pn @ '' '' @ name)
                            (w\<lparr>constructed := constructed w @
                                 [(name, rest, pn @ '' '' @ name, opts w)]\<rparr>))
                         (\<lambda>child w'. (Inr (Command pn p (Some child)), w')))
           | Some _ \<Rightarrow> (Inl (TypeError ''remainder''), w)))"

text \<open>Lines 57-81: the parser with every argument of the command registered on it.\<close>

definition register_all :: "env \<Rightarrow> command_class \<Rightarrow> string \<Rightarrow> world \<Rightarrow> parser result" where
  "register_all ev cls pn w =
     (case init_parser cls pn of
        Inl e \<Rightarrow> (Inl e, w)
      | Inr p0 \<Rightarrow>
          bind (add_arguments cls p0 w) (\<lambda>p1 w1.
            register_device ev cls (register_remainder cls p1) w1))"

text \<open>Lines 57-93: everything the constructor does before it looks at the subcommands.\<close>

definition prepare :: "env \<Rightarrow> command_class \<Rightarrow> string list \<Rightarrow> string \<Rightarrow> world \<Rightarrow> parser result" where
  "prepare ev cls argv pn w =
     bind (register_all ev cls pn w) (\<lambda>p2 w2.
     bind (parse ev argv p2 w2) (\<lambda>p3 w3.
     bind (resolve_device ev cls p3 w3) (handle_arguments cls)))"

text \<open>\<^verbatim>\<open>BaseCommand.__init__(self, argv, prog_name, opts)\<close>.\<close>

definition init :: "env \<Rightarrow> command_class \<Rightarrow> string list \<Rightarrow> string \<Rightarrow> world \<Rightarrow> command result" where
  "init ev cls argv pn w = bind (prepare ev cls argv pn w) (dispatch ev cls pn)"

section \<open>The parser's treatment of defaults and flags\<close>

text \<open>
  \<^verbatim>\<open>argparse\<close> belongs to the Python library. \<open>argparse_parse_args\<close> writes out what
  \<^verbatim>\<open>parse_args(argv, namespace=opts)\<close> does on a fragment of its inputs, and answers
  \<open>NotModelled\<close> outside of it. Inside the fragment, every argument of the parser is
  either an option that stores one value (option strings of at least two characters
  that begin with a dash, \<^verbatim>\<open>action\<close> absent or \<^verbatim>\<open>"store"\<close>, an explicit \<^verbatim>\<open>dest\<close>, no
  \<^verbatim>\<open>nargs\<close>, \<^verbatim>\<open>const\<close>, \<^verbatim>\<open>choices\<close> or \<^verbatim>\<open>required\<close>, no suppressed default and no string
  default together with a \<^verbatim>\<open>type\<close>), or the one catch-all positional; no option string
  is registered twice. On such a parser:
  \<^item> before reading argv, every argument whose \<^verbatim>\<open>dest\<close> is not yet an attribute of the
    namespace gets its \<^verbatim>\<open>default\<close> there; an attribute that is present is left as it is;
  \<^item> a token that is exactly a registered option string stores the next token,
    converted by \<^verbatim>\<open>type=\<close>, under the \<^verbatim>\<open>dest\<close> of its argument; a missing value ends
    the parse with status 2;
  \<^item> the first token that does not look like an option (it is empty, a single dash, or
    does not begin with a dash) starts what the catch-all positional captures, through
    the end of argv; without such a token the positional captures the empty list; a
    parser without the positional ends the parse with status 2 on that token.
  Any other token that begins with a dash (an abbreviation, \<^verbatim>\<open>--flag=value\<close>, \<^verbatim>\<open>-h\<close>, a
  negative number, an unknown option), also in the place of a value, is outside the
  fragment. The conversion of a token by \<^verbatim>\<open>type=\<close> is the parameter \<open>cv\<close>.
\<close>

definition looks_optional :: "string \<Rightarrow> bool" where
  "looks_optional t = (case t of c # c' # cs \<Rightarrow> c = CHR ''-'' | _ \<Rightarrow> False)"

definition positional_name :: "string \<Rightarrow> bool" where
  "positional_name n = (case n of [] \<Rightarrow> False | c # cs \<Rightarrow> c \<noteq> CHR ''-'')"

definition plain_keywords :: "argspec \<Rightarrow> bool" where
  "plain_keywords a = list_all (\<lambda>k. kwargs a k = None) [''const'', ''choices'', ''required'']"

definition store_option :: "argspec \<Rightarrow> bool" where
  "store_option a =
     (flags a \<noteq> [] \<and> list_all looks_optional (flags a)
      \<and> (kwargs a ''action'' = None \<or> kwargs a ''action'' = Some (VStr ''store''))
      \<and> kwargs a ''nargs'' = None \<and> plain_keywords a
      \<and> (case kwargs a ''dest'' of Some (VStr d) \<Rightarrow> d \<noteq> SUPPRESS | _ \<Rightarrow> False)
      \<and> (case kwargs a ''default'' of
            Some (VStr s) \<Rightarrow> s \<noteq> SUPPRESS \<and> kwargs a ''type'' = None
          | _ \<Rightarrow> True))"

definition remainder_action :: "argspec \<Rightarrow> bool" where
  "remainder_action a =
     ((case flags a of [n] \<Rightarrow> positional_name n | _ \<Rightarrow> False)
      \<and> kwargs a ''nargs'' = Some (VStr REMAINDER)
      \<and> list_all (\<lambda>k. kwargs a k = None) [''action'', ''dest'', ''default'', ''type'']
      \<and> plain_keywords a)"

definition modelled :: "argspec list \<Rightarrow> bool" where
  "modelled acts =
     (list_all (\<lambda>a. store_option a \<or> remainder_action a) acts
      \<and> distinct (concat (map flags acts))
      \<and> length (filter remainder_action acts) \<le> 1)"

definition dest_of :: "argspec \<Rightarrow> string option" where
  "dest_of a =
     (case kwargs a ''dest'' of
        Some (VStr d) \<Rightarrow> Some d
      | Some _ \<Rightarrow> None
      | None \<Rightarrow> (case flags a of [n] \<Rightarrow> if positional_name n then Some n else None | _ \<Rightarrow> None))"

definition default_of :: "argspec \<Rightarrow> pyval" where
  "default_of a = (case kwargs a ''default'' of Some v \<Rightarrow> v | None \<Rightarrow> VNone)"

fun set_defaults :: "argspec list \<Rightarrow> namespace \<Rightarrow> namespace" where
  "set_defaults [] ns = ns"
| "set_defaults (a # as) ns =
     set_defaults as
       (case dest_of a of
          None \<Rightarrow> ns
        | Some d \<Rightarrow> (case ns d of Some v \<Rightarrow> ns | None \<Rightarrow> ns(d \<mapsto> default_of a)))"

fun find_action :: "argspec list \<Rightarrow> string \<Rightarrow> argspec option" where
  "find_action [] t = None"
| "find_action (a # as) t = (if t \<in> set (flags a) then Some a else find_action as t)"

fun remainder_dest :: "argspec list \<Rightarrow> string option" where
  "remainder_dest [] = None"
| "remainder_dest (a # as) = (if remainder_action a then dest_of a else remainder_dest as)"

definition capture ::
  "argspec list \<Rightarrow> string list \<Rightarrow> namespace \<Rightarrow> error option \<times> namespace" where
  "capture acts tokens ns =
     (case remainder_dest acts of
        None \<Rightarrow> (if tokens = [] then None else Some (SystemExit 2), ns)
      | Some rd \<Rightarrow> (None, ns(rd \<mapsto> VStrs tokens)))"

fun consume ::
  "(pyval option \<Rightarrow> string \<Rightarrow> error + pyval) \<Rightarrow> argspec list \<Rightarrow> string list \<Rightarrow> namespace
     \<Rightarrow> error option \<times> namespace" where
  "consume cv acts [] ns = capture acts [] ns"
| "consume cv acts [t] ns =
     (if looks_optional t then
        (case find_action acts t of
           None \<Rightarrow> (Some NotModelled, ns)
         | Some a \<Rightarrow> (Some (SystemExit 2), ns))
      else capture acts [t] ns)"
| "consume cv acts (t # v # rest) ns =
     (if looks_optional t then
        (case find_action acts t of
           None \<Rightarrow> (Some NotModelled, ns)
         | Some a \<Rightarrow>
             (if looks_optional v then (Some NotModelled, ns)
              else
                (case dest_of a of
                   None \<Rightarrow> (Some NotModelled, ns)
                 | Some d \<Rightarrow>
                     (case cv (kwargs a ''type'') v of
                        Inl e \<Rightarrow> (Some e, ns)
                      | Inr x \<Rightarrow> consume cv acts rest (ns(d \<mapsto> x))))))
      else capture acts (t # v # rest) ns)"

definition argparse_parse_args ::
  "(pyval option \<Rightarrow> string \<Rightarrow> error + pyval) \<Rightarrow> parser \<Rightarrow> string list \<Rightarrow> namespace
     \<Rightarrow> error option \<times> namespace" where
  "argparse_parse_args cv p argv ns =
     (if modelled (actions p)
      then consume cv (actions p) argv (set_defaults (actions p) ns)
      else (Some NotModelled, ns))"


text \<open>
  What an abort carries: the class of the exception raised, and the exit status, which
  only \<^verbatim>\<open>sys.exit\<close> sets.
\<close>

fun exception_class :: "error \<Rightarrow> string" where
  "exception_class (SyntaxError m) = ''SyntaxError''"
| "exception_class (IOError m) = ''IOError''"
| "exception_class (SystemExit n) = ''SystemExit''"
| "exception_class (AttributeError m) = ''AttributeError''"
| "exception_class (TypeError m) = ''TypeError''"
| "exception_class NotModelled = ''NotModelled''"

fun exit_status :: "error \<Rightarrow> int option" where
  "exit_status (SystemExit n) = Some n"
| "exit_status e = None"

section \<open>The task runner\<close>

text \<open>
  Modelled from the spec: \<^verbatim>\<open>TaskRunner.run(task, verbose)\<close> and \<^verbatim>\<open>TaskException\<close> of
  \<^verbatim>\<open>morituri.common.task\<close>, of which the sources at hand hold only a test. After the
  spec: a task steps through its work and ends in success or with a captured error; the
  runner drives it to that end, returns normally on success, and otherwise raises a
  \<open>TaskException\<close> that wraps the captured error and refers to the task; verbose mode
  only adds progress output. A step of work is \<open>None\<close> when it completes and \<open>Some e\<close>
  when it raises \<open>e\<close>.
\<close>

record 'e task =
  steps :: "'e option list"
  exception :: "'e option"

datatype 'e raised = TaskException 'e "'e task" | Unwrapped 'e

fun run_steps :: "bool \<Rightarrow> 'e option list \<Rightarrow> string list \<Rightarrow> 'e option \<times> string list" where
  "run_steps verbose [] out = (None, out)"
| "run_steps verbose (None # rest) out =
     run_steps verbose rest (if verbose then out @ [''.''] else out)"
| "run_steps verbose (Some e # rest) out = (Some e, out)"

definition run ::
  "'e task \<Rightarrow> bool \<Rightarrow> string list \<Rightarrow> ('e raised + unit) \<times> 'e task \<times> string list" where
  "run t verbose out =
     (let (err, out') = run_steps verbose (steps t) out;
          t' = t\<lparr>exception := err\<rparr>
      in case err of
           None \<Rightarrow> (Inr (), t', out')
         | Some e \<Rightarrow> (Inl (TaskException e t'), t', out'))"

section \<open>A small command tree\<close>

text \<open>
  Concrete inputs on which the statements below are evaluated: an empty world, the
  class attributes of \<^verbatim>\<open>BaseCommand\<close> itself, the conversion \<^verbatim>\<open>type=int\<close> of a token of
  decimal digits (other tokens and types are left out), and the commands of the scenario
  \<^verbatim>\<open>encode --bitrate N\<close> (section \<^verbatim>\<open>encode\<close>, destination \<^verbatim>\<open>bitrate\<close>, default 320)
  below a root command \<^verbatim>\<open>whipper\<close>, with line 172 read as the comparison with
  \<^verbatim>\<open>bool\<close>.
\<close>

definition world0 :: world where
  "world0 = \<lparr>opts = Map.empty, stored = Map.empty, getter_calls = [], logged = [],
              printed = [], parse_calls = [], constructed = []\<rparr>"

definition base_command :: command_class where
  "base_command =
     \<lparr>device_option = False, no_add_help = False, class_description = None,
      config_section = None, subcommands = None,
      add_arguments = (\<lambda>p w. (Inr p, w)),
      handle_arguments = (\<lambda>p w. (Inr p, w))\<rparr>"

fun digits_value :: "nat \<Rightarrow> string \<Rightarrow> nat option" where
  "digits_value acc [] = Some acc"
| "digits_value acc (c # cs) =
     (if CHR ''0'' \<le> c \<and> c \<le> CHR ''9''
      then digits_value (10 * acc + (of_char c - of_char CHR ''0'')) cs
      else None)"

definition convert_token :: "pyval option \<Rightarrow> string \<Rightarrow> error + pyval" where
  "convert_token ty tok =
     (case ty of
        None \<Rightarrow> Inr (VStr tok)
      | Some t \<Rightarrow>
          if t = VType TInt then
            (case tok of
               [] \<Rightarrow> Inl NotModelled
             | c # cs \<Rightarrow>
                 (case digits_value 0 tok of
                    Some n \<Rightarrow> Inr (VInt (int n))
                  | None \<Rightarrow> Inl NotModelled))
          else Inl NotModelled)"

definition bool_compared :: "pyval \<Rightarrow> bool" where
  "bool_compared t = (t = VType TBool)"

definition bitrate_kw :: "string \<rightharpoonup> pyval" where
  "bitrate_kw = [''dest'' \<mapsto> VStr ''bitrate'', ''type'' \<mapsto> VType TInt, ''default'' \<mapsto> VInt 320]"

definition example_env :: env where
  "example_env =
     \<lparr>getAllDevicePaths = [''/dev/cdrom''],
      realpath = (\<lambda>d. if d = ''/dev/cdrom'' then ''/dev/sr0'' else d),
      path_exists = (\<lambda>d. False),
      parse_args = argparse_parse_args convert_token,
      help_text = (\<lambda>p. ''usage: '' @ prog p)\<rparr>"

definition encode_class :: command_class where
  "encode_class =
     base_command\<lparr>class_description := Some ''encode'', config_section := Some ''encode'',
       add_arguments :=
         add_argument_and_config bool_compared (Some ''encode'') [''--bitrate''] bitrate_kw\<rparr>"

definition whipper_class :: command_class where
  "whipper_class =
     base_command\<lparr>class_description := Some ''whipper'',
       subcommands :=
         Some [(''encode'', \<lparr>summary = ''encode a file'',
                             construct = init example_env encode_class\<rparr>)]\<rparr>"

definition parser0 :: parser where
  "parser0 = \<lparr>prog = ''whipper encode'', description = ''encode'', epilog_text = None,
               add_help = True, actions = []\<rparr>"

text \<open>
  A root command that registers \<^verbatim>\<open>--bitrate\<close> itself (section \<^verbatim>\<open>main\<close>, default 64)
  above the same \<^verbatim>\<open>encode\<close> command, and a config store that holds 192 for
  \<^verbatim>\<open>bitrate\<close> in section \<^verbatim>\<open>encode\<close>.
\<close>

definition bitrate_root_class :: command_class where
  "bitrate_root_class =
     base_command\<lparr>class_description := Some ''whipper'',
       subcommands :=
         Some [(''encode'', \<lparr>summary = ''encode a file'',
                             construct = init example_env encode_class\<rparr>)],
       add_arguments :=
         add_argument_and_config bool_compared None [''--bitrate'']
           [''dest'' \<mapsto> VStr ''bitrate'', ''type'' \<mapsto> VType TInt, ''default'' \<mapsto> VInt 64]\<rparr>"

definition world192 :: world where
  "world192 = world0\<lparr>stored := [(VStr ''encode'', VStr ''bitrate'') \<mapsto> VInt 192]\<rparr>"

text \<open>
  The selection of the type suffix as the spec words it: \<^verbatim>\<open>"int"\<close> and \<^verbatim>\<open>"float"\<close> for
  the numeric types, \<^verbatim>\<open>"boolean"\<close> for the boolean type, the empty string otherwise.
\<close>

definition spec_typesuffix :: "(string \<rightharpoonup> pyval) \<Rightarrow> string" where
  "spec_typesuffix kw =
     (if kw ''type'' = Some (VType TInt) then ''int''
      else if kw ''type'' = Some (VType TFloat) then ''float''
      else if kw ''type'' = Some (VType TBool) then ''boolean''
      else '''')"

section \<open>Facts about the registration of an option\<close>

lemma take_section_eq:
  "take_section cs kw =
     ((case kw ''section'' of Some s \<Rightarrow> s
       | None \<Rightarrow> (case cs of None \<Rightarrow> VStr ''main'' | Some c \<Rightarrow> VStr c)),
      kw(''section'' := None))"
  by (simp add: take_section_def fun_upd_idem split: option.splits)

lemma take_default_eq:
  "take_default kw =
     ((case kw ''default'' of Some d \<Rightarrow> d | None \<Rightarrow> VNone), kw(''default'' := None))"
  by (simp add: take_default_def fun_upd_idem split: option.splits)

lemma typesuffix_of_pop [simp]:
  "typesuffix_of g (kw(''section'' := None, ''default'' := None)) = typesuffix_of g kw"
  by (simp add: typesuffix_of_def)

lemma add_argument_and_config_ok:
  assumes "kw ''dest'' = Some key"
  shows "add_argument_and_config g cs args kw p w =
     (let section = (case kw ''section'' of Some s \<Rightarrow> s
                     | None \<Rightarrow> (case cs of None \<Rightarrow> VStr ''main'' | Some c \<Rightarrow> VStr c));
          dflt = (case kw ''default'' of Some d \<Rightarrow> d | None \<Rightarrow> VNone);
          eff = (case stored w (section, key) of Some v \<Rightarrow> v | None \<Rightarrow> dflt)
      in (Inr (p\<lparr>actions := actions p @
                 [\<lparr>flags = args, kwargs = (kw(''section'' := None, ''default'' := None))(''default'' \<mapsto> eff)\<rparr>]\<rparr>),
          w\<lparr>getter_calls := getter_calls w @ [(typesuffix_of g kw, section, key, dflt)]\<rparr>))"
  using assms
  by (simp add: add_argument_and_config_def take_section_eq take_default_eq
      getter_or_default_def Let_def)

theorem add_argument_and_config_missing_dest:
  assumes "kw ''dest'' = None"
  shows "add_argument_and_config g cs args kw p w =
           (Inl (SyntaxError ''parser requires a 'dest' argument''), w)"
  using assms
  by (simp add: add_argument_and_config_def take_section_eq take_default_eq)

lemma registered_spec:
  assumes dest: "kw ''dest'' = Some key"
    and reg: "add_argument_and_config g cs args kw p w = (Inr p', w')"
  shows "\<exists>b. actions p' = actions p @ [b] \<and> flags b = args
           \<and> kwargs b ''dest'' = Some key \<and> kwargs b ''type'' = kw ''type''
           \<and> kwargs b ''nargs'' = kw ''nargs''
           \<and> default_of b =
               (case stored w ((case kw ''section'' of Some s \<Rightarrow> s
                                | None \<Rightarrow> (case cs of None \<Rightarrow> VStr ''main'' | Some c \<Rightarrow> VStr c)), key) of
                  Some v \<Rightarrow> v
                | None \<Rightarrow> (case kw ''default'' of Some c \<Rightarrow> c | None \<Rightarrow> VNone))"
  using reg dest by (auto simp: add_argument_and_config_ok Let_def default_of_def)

text \<open>
  The numeric suffixes and the empty suffix without a type do not depend on line 172.
  Read as the comparison with \<^verbatim>\<open>bool\<close>, the line gives the selection the spec words;
  a guard that never holds gives the empty suffix for \<^verbatim>\<open>bool\<close>, and one that always
  holds gives \<^verbatim>\<open>"boolean"\<close> for a string type.
\<close>

lemma typesuffix_of_numeric:
  "typesuffix_of g (kw(''type'' \<mapsto> VType TInt)) = ''int''"
  "typesuffix_of g (kw(''type'' \<mapsto> VType TFloat)) = ''float''"
  "typesuffix_of g (kw(''type'' := None)) = ''''"
  by (simp_all add: typesuffix_of_def)

lemma typesuffix_of_bool_compared: "typesuffix_of bool_compared kw = spec_typesuffix kw"
  by (simp add: typesuffix_of_def spec_typesuffix_def bool_compared_def split: option.splits)

lemma typesuffix_of_guard_false:
  "typesuffix_of (\<lambda>t. False) [''dest'' \<mapsto> VStr ''x'', ''type'' \<mapsto> VType TBool] = ''''"
  by (simp add: typesuffix_of_def)

lemma typesuffix_of_guard_true:
  "typesuffix_of (\<lambda>t. True) [''dest'' \<mapsto> VStr ''x'', ''type'' \<mapsto> VType (TOther ''str'')]
     = ''boolean''"
  by (simp add: typesuffix_of_def)

section \<open>Facts about the constructor\<close>

lemma bind_Inr [simp]: "bind (Inr x, w) f = f x w"
  by (simp add: bind_def)

lemma bind_Inl [simp]: "bind (Inl e, w) f = (Inl e, w)"
  by (simp add: bind_def)


lemma device_msgs_differ: "device_missing_msg r \<noteq> no_drives_msg"
  by (simp add: device_missing_msg_def no_drives_msg_def)

section \<open>Facts about the parser\<close>













section \<open>Facts about the constructor and the parser together\<close>



section \<open>Facts about the task runner\<close>

lemma run_steps_raise:
  "\<forall>s\<in>set pre. s = None \<Longrightarrow> fst (run_steps verbose (pre @ Some e # post) out) = Some e"
  by (induction pre arbitrary: out) auto

lemma run_steps_ok:
  "\<forall>s\<in>set ss. s = None \<Longrightarrow> fst (run_steps verbose ss out) = None"
  by (induction ss arbitrary: out) auto

section \<open>Evaluation of the model\<close>

lemmas model_defs =
  init_def prepare_def register_all_def init_parser_def register_remainder_def
  register_device_def parse_def resolve_device_def dispatch_def
  argparse_parse_args_def modelled_def store_option_def remainder_action_def plain_keywords_def
  looks_optional_def positional_name_def capture_def dest_of_def default_of_def
  REMAINDER_def SUPPRESS_def epilog_def ljust_def add_argument_and_config_def take_section_def
  take_default_def typesuffix_of_def getter_or_default_def convert_token_def Let_def
  no_drives_msg_def device_missing_msg_def

lemmas example_defs =
  world0_def base_command_def bool_compared_def bitrate_kw_def example_env_def
  encode_class_def whipper_class_def parser0_def bitrate_root_class_def world192_def

text \<open>
  The scenario of the spec, through the constructor: no config entry and no flag gives
  320; a config entry of 192 gives 192; the same entry and \<^verbatim>\<open>--bitrate 128\<close> give 128.
\<close>

lemma scenario_encode_bitrate:
  "opts (snd (init example_env encode_class [] ''whipper encode'' world0)) ''bitrate''
     = Some (VInt 320)"
  "opts (snd (init example_env encode_class [] ''whipper encode''
        (world0\<lparr>stored := [(VStr ''encode'', VStr ''bitrate'') \<mapsto> VInt 192]\<rparr>))) ''bitrate''
     = Some (VInt 192)"
  "opts (snd (init example_env encode_class [''--bitrate'', ''128''] ''whipper encode''
        (world0\<lparr>stored := [(VStr ''encode'', VStr ''bitrate'') \<mapsto> VInt 192]\<rparr>))) ''bitrate''
     = Some (VInt 128)"
  by (simp_all add: model_defs example_defs)

section \<open>The claims\<close>




text \<open>
  C2. When a step of the task raises \<open>e\<close> (the steps before it completing), \<open>run\<close>
  raises \<open>TaskException\<close> wrapping that very \<open>e\<close> and referring to the task, which holds
  \<open>e\<close> as its captured error; when every step completes, \<open>run\<close> returns normally; in
  no case does \<open>run\<close> raise an unwrapped error.
\<close>

theorem run_wraps_error:
  "(\<forall>pre e post. steps t = pre @ Some e # post \<and> (\<forall>s\<in>set pre. s = None) \<longrightarrow>
       fst (run t verbose out) = Inl (TaskException e (t\<lparr>exception := Some e\<rparr>)))
   \<and> ((\<forall>s\<in>set (steps t). s = None) \<longrightarrow> fst (run t verbose out) = Inr ())
   \<and> (\<forall>e. fst (run t verbose out) \<noteq> Inl (Unwrapped e))"
proof (intro conjI allI impI)
  fix pre e post
  assume "steps t = pre @ Some e # post \<and> (\<forall>s\<in>set pre. s = None)"
  then have "fst (run_steps verbose (steps t) out) = Some e"
    by (simp add: run_steps_raise)
  then show "fst (run t verbose out) = Inl (TaskException e (t\<lparr>exception := Some e\<rparr>))"
    by (auto simp: run_def Let_def split: prod.splits)
next
  assume "\<forall>s\<in>set (steps t). s = None"
  then have "fst (run_steps verbose (steps t) out) = None"
    by (simp add: run_steps_ok)
  then show "fst (run t verbose out) = Inr ()"
    by (auto simp: run_def Let_def split: prod.splits)
next
  fix e
  show "fst (run t verbose out) \<noteq> Inl (Unwrapped e)"
    by (auto simp: run_def Let_def split: prod.splits option.splits)
qed

theorem run_wraps_error_witness:
  "fst (run \<lparr>steps = [None, Some ''QueryError'', None], exception = None\<rparr> False []) =
     Inl (TaskException ''QueryError''
            \<lparr>steps = [None, Some ''QueryError'', None], exception = Some ''QueryError''\<rparr>)
   \<and> fst (run \<lparr>steps = [None, None :: string option], exception = None\<rparr> False []) = Inr ()"
proof -
  let ?t = "\<lparr>steps = [None, Some ''QueryError'', None], exception = None\<rparr>"
  let ?u = "\<lparr>steps = [None, None :: string option], exception = None\<rparr>"
  have a: "steps ?t = [None] @ Some ''QueryError'' # [None] \<and> (\<forall>s\<in>set [None]. s = (None :: string option))"
    by simp
  have b: "\<forall>s\<in>set (steps ?u). s = None" by simp
  from a run_wraps_error [of ?t False "[]"]
  have "fst (run ?t False []) = Inl (TaskException ''QueryError'' (?t\<lparr>exception := Some ''QueryError''\<rparr>))"
    by blast
  moreover from b run_wraps_error [of ?u False "[]"] have "fst (run ?u False []) = Inr ()"
    by blast
  ultimately show ?thesis by simp
qed

text \<open>
  C3. A call of \<open>add_argument_and_config\<close> whose keywords have no \<^verbatim>\<open>dest\<close> raises
  \<open>SyntaxError\<close> and leaves the world as it was: nothing is registered on the parser, the
  config getter is not called, nothing is parsed. A constructor whose \<^verbatim>\<open>add_arguments\<close>
  makes that call stops with the same error, the world unchanged, before it parses.
\<close>

theorem missing_dest_fails_at_registration:
  assumes "kw ''dest'' = None"
  shows "add_argument_and_config g cs args kw p w =
           (Inl (SyntaxError ''parser requires a 'dest' argument''), w)
       \<and> (\<forall>p0. init_parser cls pn = Inr p0
                  \<and> add_arguments cls = add_argument_and_config g cs args kw \<longrightarrow>
             init ev cls argv pn w = (Inl (SyntaxError ''parser requires a 'dest' argument''), w))"
  using assms
  by (simp add: add_argument_and_config_missing_dest init_def prepare_def register_all_def)

theorem missing_dest_fails_at_registration_witness:
  "init example_env
     (encode_class\<lparr>add_arguments :=
        add_argument_and_config bool_compared (Some ''encode'') [''--bitrate'']
          [''type'' \<mapsto> VType TInt, ''default'' \<mapsto> VInt 320]\<rparr>)
     [''--bitrate'', ''128''] ''whipper encode'' world0
   = (Inl (SyntaxError ''parser requires a 'dest' argument''), world0)"
  using missing_dest_fails_at_registration
    [of "[''type'' \<mapsto> VType TInt, ''default'' \<mapsto> VInt 320]"
        bool_compared "Some ''encode''" "[''--bitrate'']" parser0 world0
        "encode_class\<lparr>add_arguments :=
            add_argument_and_config bool_compared (Some ''encode'') [''--bitrate'']
              [''type'' \<mapsto> VType TInt, ''default'' \<mapsto> VInt 320]\<rparr>"
        "''whipper encode''" example_env "[''--bitrate'', ''128'']"]
  by (simp add: init_parser_def encode_class_def base_command_def)

text \<open>
  C4. For an option registered with \<^verbatim>\<open>type=bool\<close>, the type suffix handed to the config
  getter is \<^verbatim>\<open>"boolean"\<close> exactly when the guard of line 172 is taken to hold for
  \<^verbatim>\<open>bool\<close>, and empty otherwise. The source writes that guard as an assignment, not as
  the comparison with \<^verbatim>\<open>bool\<close>.
\<close>

theorem boolean_suffix_follows_guard:
  "getter_calls (snd (add_argument_and_config g cs args
       [''dest'' \<mapsto> key, ''type'' \<mapsto> VType TBool] p w)) =
     getter_calls w @
       [(if g (VType TBool) then ''boolean'' else '''',
         (case cs of None \<Rightarrow> VStr ''main'' | Some c \<Rightarrow> VStr c), key, VNone)]"
  by (simp add: add_argument_and_config_ok typesuffix_of_def Let_def)



text \<open>
  C6. When a command with subcommands reaches the end of its preparation with an empty
  remainder, the constructor prints the help text of its parser and exits with status
  0; no child is constructed.
\<close>

theorem empty_remainder_prints_help:
  assumes "prepare ev cls argv pn w = (Inr p, w')" "subcommands cls = Some subs"
    "opts w' ''remainder'' = Some (VStrs [])"
  shows "init ev cls argv pn w =
           (Inl (SystemExit 0), w'\<lparr>printed := printed w' @ [help_text ev p]\<rparr>)
         \<and> constructed (snd (init ev cls argv pn w)) = constructed w'"
  using assms by (simp add: init_def dispatch_def)

theorem empty_remainder_witness:
  "init example_env whipper_class [] ''whipper'' world0 =
     (Inl (SystemExit 0),
      world0\<lparr>opts := [''remainder'' \<mapsto> VStrs []], parse_calls := [[]],
             printed := [''usage: whipper'']\<rparr>)"
proof -
  let ?r = "prepare example_env whipper_class [] ''whipper'' world0"
  have 1: "?r = (Inr (projr (fst ?r)), snd ?r)"
    by (simp add: model_defs example_defs)
  have 2: "subcommands whipper_class =
      Some [(''encode'', \<lparr>summary = ''encode a file'', construct = init example_env encode_class\<rparr>)]"
    by (simp add: whipper_class_def)
  have 3: "opts (snd ?r) ''remainder'' = Some (VStrs [])"
    by (simp add: model_defs example_defs)
  show ?thesis
    using empty_remainder_prints_help [OF 1 2 3]
    by (simp add: model_defs example_defs)
qed

text \<open>
  C7. When a command with subcommands reaches the end of its preparation with the
  remainder \<open>name # rest\<close>: if \<open>name\<close> is no key of the registry, the constructor logs
  a critical record and exits with status 1, constructing no child; otherwise it
  constructs the class registered under \<open>name\<close> with \<open>rest\<close>, the program name followed
  by a space and \<open>name\<close>, and the same namespace, and keeps the child as \<^verbatim>\<open>self.cmd\<close>.
\<close>

theorem subcommand_dispatch:
  assumes "prepare ev cls argv pn w = (Inr p, w')" "subcommands cls = Some subs"
    "opts w' ''remainder'' = Some (VStrs (name # rest))"
  shows "(map_of subs name = None \<longrightarrow>
            init ev cls argv pn w =
              (Inl (SystemExit 1),
               w'\<lparr>logged := logged w' @ [(Critical, ''incorrect subcommand: '' @ name)]\<rparr>)
            \<and> constructed (snd (init ev cls argv pn w)) = constructed w')
       \<and> (\<forall>sc. map_of subs name = Some sc \<longrightarrow>
            init ev cls argv pn w =
              bind (construct sc rest (pn @ '' '' @ name)
                      (w'\<lparr>constructed := constructed w' @
                            [(name, rest, pn @ '' '' @ name, opts w')]\<rparr>))
                   (\<lambda>child w''. (Inr (Command pn p (Some child)), w'')))"
  using assms by (simp add: init_def dispatch_def)

theorem subcommand_dispatch_witness:
  "init example_env whipper_class [''bogus'', ''-h''] ''whipper'' world0 =
     (Inl (SystemExit 1),
      world0\<lparr>opts := [''remainder'' \<mapsto> VStrs [''bogus'', ''-h'']],
             parse_calls := [[''bogus'', ''-h'']],
             logged := [(Critical, ''incorrect subcommand: bogus'')]\<rparr>)
   \<and> constructed (snd (init example_env whipper_class [''encode'', ''--bitrate'', ''128'']
                          ''whipper'' world0)) =
       [(''encode'', [''--bitrate'', ''128''], ''whipper encode'',
         [''remainder'' \<mapsto> VStrs [''encode'', ''--bitrate'', ''128'']])]
   \<and> map_option prog_name (cmd (projr (fst (init example_env whipper_class
         [''encode'', ''--bitrate'', ''128''] ''whipper'' world0)))) = Some ''whipper encode''"
proof -
  let ?r = "prepare example_env whipper_class [''bogus'', ''-h''] ''whipper'' world0"
  let ?s = "prepare example_env whipper_class [''encode'', ''--bitrate'', ''128''] ''whipper'' world0"
  let ?sc = "\<lparr>summary = ''encode a file'', construct = init example_env encode_class\<rparr>"
  have r1: "?r = (Inr (projr (fst ?r)), snd ?r)"
    by (simp add: model_defs example_defs)
  have s1: "?s = (Inr (projr (fst ?s)), snd ?s)"
    by (simp add: model_defs example_defs)
  have 2: "subcommands whipper_class = Some [(''encode'', ?sc)]"
    by (simp add: whipper_class_def)
  have r3: "opts (snd ?r) ''remainder'' = Some (VStrs [''bogus'', ''-h''])"
    by (simp add: model_defs example_defs)
  have s3: "opts (snd ?s) ''remainder'' = Some (VStrs [''encode'', ''--bitrate'', ''128''])"
    by (simp add: model_defs example_defs)
  have a: "init example_env whipper_class [''bogus'', ''-h''] ''whipper'' world0 =
     (Inl (SystemExit 1),
      world0\<lparr>opts := [''remainder'' \<mapsto> VStrs [''bogus'', ''-h'']],
             parse_calls := [[''bogus'', ''-h'']],
             logged := [(Critical, ''incorrect subcommand: bogus'')]\<rparr>)"
    using subcommand_dispatch [OF r1 2 r3]
    by (simp add: model_defs example_defs)
  have b: "init example_env whipper_class [''encode'', ''--bitrate'', ''128''] ''whipper'' world0 =
              bind (construct ?sc [''--bitrate'', ''128''] (''whipper'' @ '' '' @ ''encode'')
                      ((snd ?s)\<lparr>constructed := constructed (snd ?s) @
                            [(''encode'', [''--bitrate'', ''128''], ''whipper'' @ '' '' @ ''encode'', opts (snd ?s))]\<rparr>))
                   (\<lambda>child w''. (Inr (Command ''whipper'' (projr (fst ?s)) (Some child)), w''))"
    using subcommand_dispatch [OF s1 2 s3] by simp
  have c: "constructed (snd (init example_env whipper_class [''encode'', ''--bitrate'', ''128'']
                          ''whipper'' world0)) =
       [(''encode'', [''--bitrate'', ''128''], ''whipper encode'',
         [''remainder'' \<mapsto> VStrs [''encode'', ''--bitrate'', ''128'']])]"
    unfolding b by (simp add: model_defs example_defs bind_def)
  have d: "map_option prog_name (cmd (projr (fst (init example_env whipper_class
         [''encode'', ''--bitrate'', ''128''] ''whipper'' world0)))) = Some ''whipper encode''"
    unfolding b by (simp add: model_defs example_defs bind_def)
  from a c d show ?thesis by simp
qed

text \<open>
  C8. When the call succeeds, the section handed to the config getter is the
  \<^verbatim>\<open>section\<close> keyword if one is passed, else the command's \<^verbatim>\<open>config_section\<close> if it is
  set, else \<^verbatim>\<open>"main"\<close>.
\<close>

theorem lookup_section:
  assumes "kw ''dest'' = Some key"
  shows "\<exists>ts dflt. getter_calls (snd (add_argument_and_config g cs args kw p w)) =
           getter_calls w @
             [(ts, (case kw ''section'' of Some s \<Rightarrow> s
                    | None \<Rightarrow> (case cs of Some c \<Rightarrow> VStr c | None \<Rightarrow> VStr ''main'')), key, dflt)]"
  using assms by (simp add: add_argument_and_config_ok Let_def)

theorem lookup_section_witness:
  "(\<exists>ts dflt. getter_calls (snd (add_argument_and_config bool_compared (Some ''encode'')
        [''--bitrate''] (bitrate_kw(''section'' \<mapsto> VStr ''rip'')) parser0 world0)) =
      [(ts, VStr ''rip'', VStr ''bitrate'', dflt)])
   \<and> (\<exists>ts dflt. getter_calls (snd (add_argument_and_config bool_compared (Some ''encode'')
        [''--bitrate''] bitrate_kw parser0 world0)) =
      [(ts, VStr ''encode'', VStr ''bitrate'', dflt)])
   \<and> (\<exists>ts dflt. getter_calls (snd (add_argument_and_config bool_compared None
        [''--bitrate''] bitrate_kw parser0 world0)) =
      [(ts, VStr ''main'', VStr ''bitrate'', dflt)])"
  using lookup_section [of "bitrate_kw(''section'' \<mapsto> VStr ''rip'')" "VStr ''bitrate''"
      bool_compared "Some ''encode''" "[''--bitrate'']" parser0 world0]
    lookup_section [of bitrate_kw "VStr ''bitrate''"
      bool_compared "Some ''encode''" "[''--bitrate'']" parser0 world0]
    lookup_section [of bitrate_kw "VStr ''bitrate''"
      bool_compared None "[''--bitrate'']" parser0 world0]
  by (simp add: bitrate_kw_def world0_def)

text \<open>
  C9, as amended. With \<^verbatim>\<open>device_option\<close> set, after parsing, the device of the namespace
  is replaced by its real path; if that path exists the constructor goes on to
  \<^verbatim>\<open>handle_arguments\<close>, and if it does not, the constructor logs a critical record and
  stops by raising \<open>IOError\<close> with the message \<^verbatim>\<open>CD-DA device <path> not found!\<close>. That is
  the exception class of the failure when no device is found; neither failure sets an
  exit status, and they differ in their messages only.
\<close>

theorem device_resolved_or_abort:
  assumes "device_option cls" "register_all ev cls pn w = (Inr p2, w2)"
    "parse_args ev p2 argv (opts w2) = (None, ns)" "ns ''device'' = Some (VStr d)"
  shows "(path_exists ev (realpath ev d) \<longrightarrow>
            prepare ev cls argv pn w =
              handle_arguments cls p2
                (w2\<lparr>parse_calls := parse_calls w2 @ [argv],
                    opts := ns(''device'' \<mapsto> VStr (realpath ev d))\<rparr>))
       \<and> (\<not> path_exists ev (realpath ev d) \<longrightarrow>
            init ev cls argv pn w =
              (Inl (IOError (device_missing_msg (realpath ev d))),
               w2\<lparr>opts := ns(''device'' \<mapsto> VStr (realpath ev d)),
                  parse_calls := parse_calls w2 @ [argv],
                  logged := logged w2 @ [(Critical, device_missing_msg (realpath ev d))]\<rparr>)
            \<and> exception_class (IOError (device_missing_msg (realpath ev d)))
                = exception_class (IOError no_drives_msg)
            \<and> exit_status (IOError (device_missing_msg (realpath ev d))) = None
            \<and> exit_status (IOError no_drives_msg) = None
            \<and> device_missing_msg (realpath ev d) \<noteq> no_drives_msg)"
  using assms
  by (simp add: init_def prepare_def parse_def resolve_device_def Let_def device_msgs_differ)

theorem device_resolved_or_abort_witness:
  "init example_env (encode_class\<lparr>device_option := True\<rparr>) [] ''whipper encode'' world0 =
     (Inl (IOError ''CD-DA device /dev/sr0 not found!''),
      world0\<lparr>opts := [''bitrate'' \<mapsto> VInt 320, ''device'' \<mapsto> VStr ''/dev/sr0''],
             getter_calls := [(''int'', VStr ''encode'', VStr ''bitrate'', VInt 320)],
             parse_calls := [[]],
             logged := [(Critical, ''CD-DA device /dev/sr0 not found!'')]\<rparr>)"
proof -
  let ?cls = "encode_class\<lparr>device_option := True\<rparr>"
  let ?p2 = "projr (fst (register_all example_env ?cls ''whipper encode'' world0))"
  let ?w2 = "snd (register_all example_env ?cls ''whipper encode'' world0)"
  let ?ns = "[''bitrate'' \<mapsto> VInt 320, ''device'' \<mapsto> VStr ''/dev/cdrom'']"
  have 1: "device_option ?cls" by simp
  have 2: "register_all example_env ?cls ''whipper encode'' world0 = (Inr ?p2, ?w2)"
    by (simp add: model_defs example_defs)
  have 3: "parse_args example_env ?p2 [] (opts ?w2) = (None, ?ns)"
    by (simp add: model_defs example_defs)
  have 4: "?ns ''device'' = Some (VStr ''/dev/cdrom'')" by simp
  have 5: "\<not> path_exists example_env (realpath example_env ''/dev/cdrom'')"
    by (simp add: example_env_def)
  from device_resolved_or_abort [OF 1 2 3 4] 5
  have "init example_env ?cls [] ''whipper encode'' world0 =
              (Inl (IOError (device_missing_msg (realpath example_env ''/dev/cdrom''))),
               ?w2\<lparr>opts := ?ns(''device'' \<mapsto> VStr (realpath example_env ''/dev/cdrom'')),
                  parse_calls := parse_calls ?w2 @ [[]],
                  logged := logged ?w2 @ [(Critical, device_missing_msg (realpath example_env ''/dev/cdrom''))]\<rparr>)"
    by blast
  then show ?thesis
    by (simp add: model_defs example_defs)
qed

text \<open>
  C9 as stated fails: with no device enumerated and with a device whose real path is
  missing, the constructor stops with the same exception class, \<open>IOError\<close>, and with no
  exit status in either case.
\<close>

theorem device_failures_share_class:
  "fst (init (example_env\<lparr>getAllDevicePaths := []\<rparr>) (encode_class\<lparr>device_option := True\<rparr>)
          [] ''whipper encode'' world0) = Inl (IOError ''No CD-DA drives found!'')
   \<and> fst (init example_env (encode_class\<lparr>device_option := True\<rparr>)
          [] ''whipper encode'' world0) = Inl (IOError ''CD-DA device /dev/sr0 not found!'')
   \<and> exception_class (IOError ''No CD-DA drives found!'')
       = exception_class (IOError ''CD-DA device /dev/sr0 not found!'')
   \<and> exit_status (IOError ''No CD-DA drives found!'')
       = exit_status (IOError ''CD-DA device /dev/sr0 not found!'')"
  by (simp add: model_defs example_defs)

text \<open>
  C10. A call that succeeds registers exactly one argument on the parser: with the
  positional arguments as given, without the \<^verbatim>\<open>section\<close> keyword, with \<^verbatim>\<open>default\<close> set to
  the value the config getter returned, and with every other keyword as given.
\<close>

theorem forwarded_keywords:
  assumes "kw ''dest'' = Some key"
  shows "\<exists>p' w' b. add_argument_and_config g cs args kw p w = (Inr p', w')
           \<and> p' = p\<lparr>actions := actions p @ [b]\<rparr>
           \<and> flags b = args
           \<and> kwargs b ''section'' = None
           \<and> kwargs b ''default'' =
               Some (fst (getter_or_default (typesuffix_of g kw)
                       (case kw ''section'' of Some s \<Rightarrow> s
                        | None \<Rightarrow> (case cs of Some c \<Rightarrow> VStr c | None \<Rightarrow> VStr ''main''))
                       key (case kw ''default'' of Some d \<Rightarrow> d | None \<Rightarrow> VNone) w))
           \<and> (\<forall>k. k \<noteq> ''section'' \<and> k \<noteq> ''default'' \<longrightarrow> kwargs b k = kw k)"
  using assms
  by (auto simp: add_argument_and_config_ok getter_or_default_def Let_def split: option.splits)

theorem forwarded_keywords_witness:
  "\<exists>w'. add_argument_and_config bool_compared (Some ''encode'') [''--bitrate'']
       (bitrate_kw(''section'' \<mapsto> VStr ''rip'', ''help'' \<mapsto> VStr ''kbit/s''))
       parser0 (world0\<lparr>stored := [(VStr ''rip'', VStr ''bitrate'') \<mapsto> VInt 192]\<rparr>) =
     (Inr (parser0\<lparr>actions :=
        [\<lparr>flags = [''--bitrate''],
          kwargs = [''dest'' \<mapsto> VStr ''bitrate'', ''type'' \<mapsto> VType TInt,
                    ''help'' \<mapsto> VStr ''kbit/s'', ''default'' \<mapsto> VInt 192]\<rparr>]\<rparr>), w')"
  using forwarded_keywords
    [of "bitrate_kw(''section'' \<mapsto> VStr ''rip'', ''help'' \<mapsto> VStr ''kbit/s'')" "VStr ''bitrate''"
        bool_compared "Some ''encode''" "[''--bitrate'']" parser0
        "world0\<lparr>stored := [(VStr ''rip'', VStr ''bitrate'') \<mapsto> VInt 192]\<rparr>"]
  by (auto simp: bitrate_kw_def world0_def parser0_def add_argument_and_config_ok Let_def
      fun_eq_iff)


end
